theory Spec2Isabelle
  imports Complex_Main
begin

section \<open>Python values, exceptions and the library functions the handler calls\<close>

text \<open>
  The rule set is whatever \<^verbatim>\<open>json.loads\<close> returns, so a rule is a dynamically typed
  value: every attribute access, comparison and iteration of the handler is modelled
  on all JSON values, with the exception Python raises where the value has the wrong
  type. A dict is an association list with distinct keys, in insertion order. A float
  is modelled by the rational it denotes (the handler only tests floats for truth and
  compares them with integers). A character is a code point below 256.
\<close>

datatype pyval =
    PNone
  | PBool bool
  | PInt int
  | PFloat rat
  | PStr string
  | PList "pyval list"
  | PDict "(string \<times> pyval) list"

text \<open>
  The exceptions of the model. All but \<open>CancelledError\<close> derive from Python's
  \<^verbatim>\<open>Exception\<close>; \<open>CancelledError\<close> derives from \<^verbatim>\<open>BaseException\<close> only, so
  \<^verbatim>\<open>except Exception\<close> does not catch it. \<open>RedisError\<close> stands for every error
  the redis client raises (connection, timeout, wrong type of key).
\<close>

datatype pyexn = AttributeError | TypeError | JSONDecodeError | RedisError | CancelledError

fun is_Exception :: "pyexn \<Rightarrow> bool" where
  "is_Exception CancelledError = False"
| "is_Exception _ = True"

text \<open>
  The functions of Python's library whose results are strings built from arbitrary
  values are parameters of the model: \<^verbatim>\<open>json.loads\<close> (\<open>None\<close> when it raises
  \<^verbatim>\<open>JSONDecodeError\<close>), \<^verbatim>\<open>json.dumps\<close>, and the conversion an f-string applies to
  a value.
\<close>

record pylib =
  json_loads :: "string \<Rightarrow> pyval option"
  json_dumps :: "pyval \<Rightarrow> string"
  format_value :: "pyval \<Rightarrow> string"

text \<open>Truth value of an object: \<^verbatim>\<open>if x\<close>, \<^verbatim>\<open>not x\<close>, \<^verbatim>\<open>x and y\<close>.\<close>

fun truthy :: "pyval \<Rightarrow> bool" where
  "truthy PNone = False"
| "truthy (PBool b) = b"
| "truthy (PInt i) = (i \<noteq> 0)"
| "truthy (PFloat f) = (f \<noteq> 0)"
| "truthy (PStr s) = (s \<noteq> [])"
| "truthy (PList xs) = (xs \<noteq> [])"
| "truthy (PDict d) = (d \<noteq> [])"

text \<open>Truth value of an attribute that is a string or \<^verbatim>\<open>None\<close>.\<close>

fun truthy_str :: "string option \<Rightarrow> bool" where
  "truthy_str None = False"
| "truthy_str (Some s) = (s \<noteq> [])"

text \<open>\<^verbatim>\<open>a or b\<close> on two such attributes.\<close>

definition str_or :: "string option \<Rightarrow> string option \<Rightarrow> string option" where
  "str_or a b = (if truthy_str a then a else b)"

text \<open>\<^verbatim>\<open>d.get(k, default)\<close> on a dict.\<close>

definition dget :: "(string \<times> pyval) list \<Rightarrow> string \<Rightarrow> pyval \<Rightarrow> pyval" where
  "dget d k dflt = (case map_of d k of None \<Rightarrow> dflt | Some v \<Rightarrow> v)"

text \<open>
  \<^verbatim>\<open>for x in v\<close>: the elements of a list, the keys of a dict, the characters of a
  string; \<^verbatim>\<open>TypeError\<close> for a value that is not iterable.
\<close>

fun py_iter :: "pyval \<Rightarrow> pyexn + pyval list" where
  "py_iter (PList xs) = Inr xs"
| "py_iter (PDict d) = Inr (map (\<lambda>kv. PStr (fst kv)) d)"
| "py_iter (PStr s) = Inr (map (\<lambda>c. PStr [c]) s)"
| "py_iter _ = Inl TypeError"

subsection \<open>Strings\<close>

text \<open>\<^verbatim>\<open>k in t\<close> on two strings: \<open>k\<close> occurs in \<open>t\<close> as a contiguous substring.\<close>

fun starts_with :: "string \<Rightarrow> string \<Rightarrow> bool" where
  "starts_with [] t = True"
| "starts_with (c # k) [] = False"
| "starts_with (c # k) (d # t) = (c = d \<and> starts_with k t)"

fun str_in :: "string \<Rightarrow> string \<Rightarrow> bool" where
  "str_in k [] = (k = [])"
| "str_in k (d # t) = (starts_with k (d # t) \<or> str_in k t)"

text \<open>\<^verbatim>\<open>str.lower\<close>, on the code points below 256.\<close>

definition lower_char :: "char \<Rightarrow> char" where
  "lower_char c =
     (let n = (of_char c :: nat)
      in if (65 \<le> n \<and> n \<le> 90) \<or> (192 \<le> n \<and> n \<le> 222 \<and> n \<noteq> 215)
         then char_of (n + 32) else c)"

definition lower :: "string \<Rightarrow> string" where
  "lower s = map lower_char s"

text \<open>\<^verbatim>\<open>str.split()\<close> with no argument: the maximal runs of non-whitespace.\<close>

definition is_space :: "char \<Rightarrow> bool" where
  "is_space c =
     (let n = (of_char c :: nat)
      in (9 \<le> n \<and> n \<le> 13) \<or> (28 \<le> n \<and> n \<le> 32) \<or> n = 133 \<or> n = 160)"

fun split_from :: "string \<Rightarrow> string \<Rightarrow> string list" where
  "split_from cur [] = (if cur = [] then [] else [cur])"
| "split_from cur (c # cs) =
     (if is_space c
      then (if cur = [] then split_from [] cs else cur # split_from [] cs)
      else split_from (cur @ [c]) cs)"

definition py_split :: "string \<Rightarrow> string list" where
  "py_split s = split_from [] s"

section \<open>The message delivered by the chat client\<close>

datatype chat_type = PRIVATE | BOT | GROUP | SUPERGROUP | CHANNEL

fun type_value :: "chat_type \<Rightarrow> string" where
  "type_value PRIVATE = ''private''"
| "type_value BOT = ''bot''"
| "type_value GROUP = ''group''"
| "type_value SUPERGROUP = ''supergroup''"
| "type_value CHANNEL = ''channel''"

record user =
  is_self :: bool
  is_bot :: bool
  full_name :: "string option"
  username :: "string option"
  user_id :: int

record chat =
  chat_type :: chat_type
  title :: "string option"
  chat_username :: "string option"
  chat_id :: int

text \<open>\<open>date\<close> is the value of \<^verbatim>\<open>message.date.timestamp()\<close>, seconds since the epoch.\<close>

record message =
  from_user :: "user option"
  msg_text :: "string option"
  caption :: "string option"
  chat :: chat
  message_id :: int
  link :: string
  date :: rat

section \<open>The store and the log\<close>

text \<open>
  The redis commands the handler issues. A key holds a string or a list, and may
  carry a deadline (the second at which it expires). \<open>faulty\<close> tells which calls
  fail at the connection. \<open>calls\<close> records every command issued, in order, and
  \<open>logged\<close> every record written by \<^verbatim>\<open>logging\<close>.
\<close>

datatype rvalue = RString string | RList "string list"

datatype call = GET string | RPUSH string string | EXPIRE string nat

datatype log_entry =
    INFO_received "string option" int "string option" string
  | INFO_pushed pyval
  | ERROR_handling pyexn

record world =
  clock :: nat
  db :: "string \<Rightarrow> rvalue option"
  deadline :: "string \<Rightarrow> nat option"
  faulty :: "call \<Rightarrow> bool"
  calls :: "call list"
  logged :: "log_entry list"

definition live :: "world \<Rightarrow> string \<Rightarrow> rvalue option" where
  "live w k =
     (case deadline w k of
        None \<Rightarrow> db w k
      | Some t \<Rightarrow> if t \<le> clock w then None else db w k)"

definition redis_get :: "string \<Rightarrow> world \<Rightarrow> (pyexn + string option) \<times> world" where
  "redis_get k w =
     (let w' = w\<lparr>calls := calls w @ [GET k]\<rparr>
      in if faulty w (GET k) then (Inl RedisError, w')
         else (case live w k of
                 None \<Rightarrow> (Inr None, w')
               | Some (RString s) \<Rightarrow> (Inr (Some s), w')
               | Some (RList xs) \<Rightarrow> (Inl RedisError, w')))"

definition redis_rpush :: "string \<Rightarrow> string \<Rightarrow> world \<Rightarrow> (pyexn + unit) \<times> world" where
  "redis_rpush k v w =
     (let w' = w\<lparr>calls := calls w @ [RPUSH k v]\<rparr>
      in if faulty w (RPUSH k v) then (Inl RedisError, w')
         else (case live w k of
                 None \<Rightarrow>
                   (Inr (), w'\<lparr>db := (db w)(k \<mapsto> RList [v]),
                               deadline := (deadline w)(k := None)\<rparr>)
               | Some (RList xs) \<Rightarrow> (Inr (), w'\<lparr>db := (db w)(k \<mapsto> RList (xs @ [v]))\<rparr>)
               | Some (RString s) \<Rightarrow> (Inl RedisError, w')))"

definition redis_expire :: "string \<Rightarrow> nat \<Rightarrow> world \<Rightarrow> (pyexn + unit) \<times> world" where
  "redis_expire k secs w =
     (let w' = w\<lparr>calls := calls w @ [EXPIRE k secs]\<rparr>
      in if faulty w (EXPIRE k secs) then (Inl RedisError, w')
         else (case live w k of
                 None \<Rightarrow> (Inr (), w')
               | Some v \<Rightarrow> (Inr (), w'\<lparr>deadline := (deadline w)(k \<mapsto> clock w + secs)\<rparr>)))"

text \<open>Time passing between two messages.\<close>

definition tick :: "nat \<Rightarrow> world \<Rightarrow> world" where
  "tick d w = w\<lparr>clock := clock w + d\<rparr>"

section \<open>The message handler\<close>

text \<open>
  \<^verbatim>\<open>message.text or message.caption or ""\<close>: the first of the two that is a
  non-empty string, else the empty string.
\<close>

definition message_text_of :: "message \<Rightarrow> string" where
  "message_text_of m =
     (case str_or (msg_text m) (caption m) of None \<Rightarrow> [] | Some s \<Rightarrow> s)"

text \<open>
  The \<^verbatim>\<open>if\<close>/\<^verbatim>\<open>elif\<close> that sets \<^verbatim>\<open>is_push\<close>: the result is the value of
  \<^verbatim>\<open>is_push\<close> after it. \<^verbatim>\<open>target_keyword in message_text\<close> raises
  \<^verbatim>\<open>TypeError\<close> and \<^verbatim>\<open>target_keyword.lower()\<close> raises \<^verbatim>\<open>AttributeError\<close>
  when the keyword is not a string.
\<close>

definition keyword_match :: "pyval \<Rightarrow> pyval \<Rightarrow> string \<Rightarrow> bool \<Rightarrow> pyexn + bool" where
  "keyword_match match_pattern target_keyword message_text is_push =
     (if match_pattern = PStr ''exact'' then
        (case target_keyword of
           PStr k \<Rightarrow> Inr (if str_in k message_text then True else is_push)
         | _ \<Rightarrow> Inl TypeError)
      else if match_pattern = PStr ''fuzzy'' then
        (case target_keyword of
           PStr k \<Rightarrow> Inr (if str_in (lower k) (lower message_text) then True else is_push)
         | _ \<Rightarrow> Inl AttributeError)
      else Inr is_push)"

text \<open>\<^verbatim>\<open>word_limit > 0\<close>.\<close>

fun greater_zero :: "pyval \<Rightarrow> pyexn + bool" where
  "greater_zero (PInt i) = Inr (0 < i)"
| "greater_zero (PBool b) = Inr b"
| "greater_zero (PFloat f) = Inr (0 < f)"
| "greater_zero _ = Inl TypeError"

text \<open>\<^verbatim>\<open>len(message_text.split()) < word_limit\<close>, the length being \<open>n\<close>.\<close>

fun len_less :: "nat \<Rightarrow> pyval \<Rightarrow> pyexn + bool" where
  "len_less n (PInt i) = Inr (int n < i)"
| "len_less n (PBool b) = Inr (int n < (if b then 1 else 0))"
| "len_less n (PFloat f) = Inr (of_nat n < f)"
| "len_less n _ = Inl TypeError"

text \<open>\<^verbatim>\<open>word_limit > 0 and len(message_text.split()) < word_limit\<close>.\<close>

definition too_short :: "pyval \<Rightarrow> string \<Rightarrow> pyexn + bool" where
  "too_short word_limit message_text =
     (case greater_zero word_limit of
        Inl e \<Rightarrow> Inl e
      | Inr False \<Rightarrow> Inr False
      | Inr True \<Rightarrow> len_less (length (py_split message_text)) word_limit)"

text \<open>
  One iteration of the loop over the rules, up to the test of \<^verbatim>\<open>is_push\<close>: how
  the iteration ends, with the values of \<^verbatim>\<open>user_id\<close> and \<^verbatim>\<open>target_keyword\<close> when
  it goes on to push, and the value of \<^verbatim>\<open>is_push\<close> it leaves.
\<close>

datatype outcome = Next | Matched pyval pyval

definition loop_body :: "message \<Rightarrow> user \<Rightarrow> pyval \<Rightarrow> bool \<Rightarrow> pyexn + bool \<times> outcome" where
  "loop_body m u keyword is_push =
     (case keyword of
        PDict d \<Rightarrow>
          (let is_active = dget d ''is_active'' (PBool False)
           in if \<not> truthy is_active then Inr (is_push, Next)
              else
                (let match_pattern = dget d ''match_pattern'' (PStr ''exact'');
                     word_limit = dget d ''word_limit'' (PInt 0);
                     has_username = dget d ''has_username'' (PInt 0);
                     target_keyword = dget d ''keyword'' (PStr []);
                     uid = dget d ''user_id'' PNone;
                     message_text = message_text_of m
                 in case keyword_match match_pattern target_keyword message_text is_push of
                      Inl e \<Rightarrow> Inl e
                    | Inr is_push' \<Rightarrow>
                        if truthy has_username \<and> \<not> truthy_str (username u)
                        then Inr (is_push', Next)
                        else
                          (case too_short word_limit message_text of
                             Inl e \<Rightarrow> Inl e
                           | Inr True \<Rightarrow> Inr (is_push', Next)
                           | Inr False \<Rightarrow>
                               if is_push' then Inr (is_push', Matched uid target_keyword)
                               else Inr (is_push', Next))))
      | _ \<Rightarrow> Inl AttributeError)"

text \<open>An attribute that is a string or \<^verbatim>\<open>None\<close>, as a value.\<close>

fun opt_str :: "string option \<Rightarrow> pyval" where
  "opt_str None = PNone"
| "opt_str (Some s) = PStr s"

definition push_data :: "message \<Rightarrow> user \<Rightarrow> pyval \<Rightarrow> pyval" where
  "push_data m u target_keyword =
     PDict
       [(''message_id'', PInt (message_id m)),
        (''message_link'', PStr (link m)),
        (''chat_title'', opt_str (title (chat m))),
        (''chat_username'', opt_str (chat_username (chat m))),
        (''chat_type'', PStr (type_value (chat_type (chat m)))),
        (''chat_id'', PInt (chat_id (chat m))),
        (''user_name'', opt_str (username u)),
        (''user_full_name'', opt_str (full_name u)),
        (''user_id'', PInt (user_id u)),
        (''text'', PStr (message_text_of m)),
        (''date'', PFloat (date m)),
        (''matched_keyword'', target_keyword)]"

text \<open>The body of \<^verbatim>\<open>if is_push:\<close>, up to the \<^verbatim>\<open>break\<close>.\<close>

definition push_message ::
  "pylib \<Rightarrow> message \<Rightarrow> user \<Rightarrow> pyval \<Rightarrow> pyval \<Rightarrow> world \<Rightarrow> (pyexn + unit) \<times> world" where
  "push_message lib m u uid target_keyword w =
     (let push_key = ''listener:push:messages:'' @ format_value lib uid
      in case redis_rpush push_key (json_dumps lib (push_data m u target_keyword)) w of
           (Inl e, w1) \<Rightarrow> (Inl e, w1)
         | (Inr _, w1) \<Rightarrow>
             (case redis_expire push_key (24 * 60 * 60) w1 of
                (Inl e, w2) \<Rightarrow> (Inl e, w2)
              | (Inr _, w2) \<Rightarrow> (Inr (), w2\<lparr>logged := logged w2 @ [INFO_pushed uid]\<rparr>)))"

text \<open>
  \<^verbatim>\<open>for keyword in keywords\<close>, from the value \<^verbatim>\<open>is_push\<close> has when the loop is
  entered. \<^verbatim>\<open>is_push\<close> is assigned \<^verbatim>\<open>False\<close> once, before the loop, and is carried
  from one iteration to the next.
\<close>

fun for_keywords ::
  "pylib \<Rightarrow> message \<Rightarrow> user \<Rightarrow> bool \<Rightarrow> pyval list \<Rightarrow> world \<Rightarrow> (pyexn + unit) \<times> world" where
  "for_keywords lib m u is_push [] w = (Inr (), w)"
| "for_keywords lib m u is_push (keyword # rest) w =
     (case loop_body m u keyword is_push of
        Inl e \<Rightarrow> (Inl e, w)
      | Inr (is_push', Next) \<Rightarrow> for_keywords lib m u is_push' rest w
      | Inr (is_push', Matched uid target_keyword) \<Rightarrow>
          push_message lib m u uid target_keyword w)"

text \<open>The body of the \<^verbatim>\<open>try\<close>.\<close>

definition handle_body :: "pylib \<Rightarrow> message \<Rightarrow> world \<Rightarrow> (pyexn + unit) \<times> world" where
  "handle_body lib m w =
     (case from_user m of
        None \<Rightarrow> (Inr (), w)
      | Some u \<Rightarrow>
          if is_self u then (Inr (), w)
          else
            (case str_or (msg_text m) (caption m) of
               None \<Rightarrow> (Inr (), w)
             | Some txt \<Rightarrow>
                 if txt = [] then (Inr (), w)
                 else if type_value (chat_type (chat m)) = ''private'' then (Inr (), w)
                 else if is_bot u then (Inr (), w)
                 else
                   (let w0 = w\<lparr>logged := logged w @
                               [INFO_received (username u) (user_id u) (full_name u)
                                  (take 50 txt)]\<rparr>
                    in case redis_get ''listener:keywords'' w0 of
                         (Inl e, w1) \<Rightarrow> (Inl e, w1)
                       | (Inr None, w1) \<Rightarrow> (Inr (), w1)
                       | (Inr (Some s), w1) \<Rightarrow>
                           if s = [] then (Inr (), w1)
                           else
                             (case json_loads lib s of
                                None \<Rightarrow> (Inl JSONDecodeError, w1)
                              | Some keywords \<Rightarrow>
                                  (case py_iter keywords of
                                     Inl e \<Rightarrow> (Inl e, w1)
                                   | Inr ks \<Rightarrow> for_keywords lib m u False ks w1)))))"

text \<open>
  \<^verbatim>\<open>try: ... except Exception as e: logging.error(...)\<close>. The first component is
  the exception that reaches the caller, if any.
\<close>

definition handle_message :: "pylib \<Rightarrow> message \<Rightarrow> world \<Rightarrow> pyexn option \<times> world" where
  "handle_message lib m w =
     (case handle_body lib m w of
        (Inr _, w') \<Rightarrow> (None, w')
      | (Inl e, w') \<Rightarrow>
          if is_Exception e then (None, w'\<lparr>logged := logged w' @ [ERROR_handling e]\<rparr>)
          else (Some e, w'))"

text \<open>The state once the message has been logged as received.\<close>

definition received :: "message \<Rightarrow> user \<Rightarrow> world \<Rightarrow> world" where
  "received m u w =
     w\<lparr>logged := logged w @
          [INFO_received (username u) (user_id u) (full_name u) (take 50 (message_text_of m))]\<rparr>"

section \<open>Examples: a library double, a message and four rule sets\<close>

text \<open>
  The examples run the handler on a double of the library: its \<open>json_loads\<close> knows
  the four documents below and takes every other string as unparsable, its
  \<open>format_value\<close> agrees with Python on strings, \<^verbatim>\<open>None\<close> and one-digit
  naturals, and its \<open>json_dumps\<close> writes the fields of a dict one after the other.
\<close>

definition username_rules_json :: string where
  \<open>username_rules_json =
     ''[{"is_active": true, "keyword": "foo", "has_username": 1, "user_id": 1}, {"is_active": true, "keyword": "zzz", "user_id": 2}]''\<close>

definition username_rules :: pyval where
  "username_rules =
     PList
       [PDict [(''is_active'', PBool True), (''keyword'', PStr ''foo''),
               (''has_username'', PInt 1), (''user_id'', PInt 1)],
        PDict [(''is_active'', PBool True), (''keyword'', PStr ''zzz''),
               (''user_id'', PInt 2)]]"

definition word_limit_rules_json :: string where
  \<open>word_limit_rules_json =
     ''[{"is_active": true, "keyword": "foo", "word_limit": 5, "user_id": 1}, {"is_active": true, "keyword": "zzz", "user_id": 2}]''\<close>

definition word_limit_rules :: pyval where
  "word_limit_rules =
     PList
       [PDict [(''is_active'', PBool True), (''keyword'', PStr ''foo''),
               (''word_limit'', PInt 5), (''user_id'', PInt 1)],
        PDict [(''is_active'', PBool True), (''keyword'', PStr ''zzz''),
               (''user_id'', PInt 2)]]"

definition pattern_rules_json :: string where
  \<open>pattern_rules_json =
     ''[{"is_active": true, "keyword": "foo", "has_username": 1, "user_id": 1}, {"is_active": true, "match_pattern": "regex", "keyword": "zzz", "user_id": 2}]''\<close>

definition pattern_rules :: pyval where
  "pattern_rules =
     PList
       [PDict [(''is_active'', PBool True), (''keyword'', PStr ''foo''),
               (''has_username'', PInt 1), (''user_id'', PInt 1)],
        PDict [(''is_active'', PBool True), (''match_pattern'', PStr ''regex''),
               (''keyword'', PStr ''zzz''), (''user_id'', PInt 2)]]"

definition three_rules_json :: string where
  \<open>three_rules_json =
     ''[{"is_active": true, "keyword": "foo", "has_username": 1, "user_id": 1}, {"is_active": true, "keyword": "zzz", "user_id": 2}, {"is_active": true, "keyword": "foo", "user_id": 3}]''\<close>

definition three_rules :: pyval where
  "three_rules =
     PList
       [PDict [(''is_active'', PBool True), (''keyword'', PStr ''foo''),
               (''has_username'', PInt 1), (''user_id'', PInt 1)],
        PDict [(''is_active'', PBool True), (''keyword'', PStr ''zzz''),
               (''user_id'', PInt 2)],
        PDict [(''is_active'', PBool True), (''keyword'', PStr ''foo''),
               (''user_id'', PInt 3)]]"

definition example_loads :: "string \<Rightarrow> pyval option" where
  "example_loads s =
     (if s = username_rules_json then Some username_rules
      else if s = word_limit_rules_json then Some word_limit_rules
      else if s = pattern_rules_json then Some pattern_rules
      else if s = three_rules_json then Some three_rules
      else None)"

definition example_format :: "pyval \<Rightarrow> string" where
  "example_format v =
     (case v of
        PStr s \<Rightarrow> s
      | PInt i \<Rightarrow> (if 0 \<le> i \<and> i < 10 then [char_of (48 + nat i)] else ''<int>'')
      | PNone \<Rightarrow> ''None''
      | _ \<Rightarrow> ''<value>'')"

definition example_dumps :: "pyval \<Rightarrow> string" where
  "example_dumps v =
     (case v of
        PDict d \<Rightarrow> concat (map (\<lambda>kv. fst kv @ ''='' @ example_format (snd kv) @ '';'') d)
      | _ \<Rightarrow> example_format v)"

definition example_lib :: pylib where
  "example_lib =
     \<lparr>json_loads = example_loads, json_dumps = example_dumps, format_value = example_format\<rparr>"

text \<open>A member of a supergroup who has no username writes three words.\<close>

definition example_user :: user where
  "example_user =
     \<lparr>is_self = False, is_bot = False, full_name = Some ''Ann Lee'', username = None,
      user_id = 7\<rparr>"

definition example_chat :: chat where
  "example_chat =
     \<lparr>chat_type = SUPERGROUP, title = Some ''Room'', chat_username = None, chat_id = 5\<rparr>"

definition example_message :: message where
  "example_message =
     \<lparr>from_user = Some example_user, msg_text = Some ''foo is here'', caption = None,
      chat = example_chat, message_id = 1, link = ''https://t.me/c/5/1'', date = 1700000000\<rparr>"

text \<open>A store that holds the given document under the key of the rules, and no queue.\<close>

definition example_world :: "string \<Rightarrow> world" where
  "example_world rules =
     \<lparr>clock = 0,
      db = (\<lambda>k. if k = ''listener:keywords'' then Some (RString rules) else None),
      deadline = (\<lambda>k. None),
      faulty = (\<lambda>c. False),
      calls = [],
      logged = []\<rparr>"

text \<open>The same store when its connection is down.\<close>

definition broken_world :: "string \<Rightarrow> world" where
  "broken_world rules = (example_world rules)\<lparr>faulty := (\<lambda>c. True)\<rparr>"

text \<open>The same message from a member who has a username.\<close>

definition named_user :: user where
  "named_user = example_user\<lparr>username := Some ''ann''\<rparr>"

definition named_message :: message where
  "named_message = example_message\<lparr>from_user := Some named_user\<rparr>"

section \<open>Auxiliary facts\<close>

subsection \<open>Substrings\<close>

lemma starts_with_iff: "starts_with k t \<longleftrightarrow> (\<exists>ss. t = k @ ss)"
  by (induction k t rule: starts_with.induct) auto

lemma str_in_iff: "str_in k t \<longleftrightarrow> (\<exists>ps ss. t = ps @ k @ ss)"
proof (induction t)
  case Nil
  then show ?case by auto
next
  case (Cons d t)
  show ?case
  proof
    assume "str_in k (d # t)"
    then consider "starts_with k (d # t)" | "str_in k t" by auto
    then show "\<exists>ps ss. d # t = ps @ k @ ss"
    proof cases
      case 1
      then obtain ss where "d # t = k @ ss" by (auto simp: starts_with_iff)
      then have "d # t = [] @ k @ ss" by simp
      then show ?thesis by blast
    next
      case 2
      with Cons obtain ps ss where "t = ps @ k @ ss" by auto
      then have "d # t = (d # ps) @ k @ ss" by simp
      then show ?thesis by blast
    qed
  next
    assume "\<exists>ps ss. d # t = ps @ k @ ss"
    then obtain ps ss where e: "d # t = ps @ k @ ss" by blast
    show "str_in k (d # t)"
    proof (cases ps)
      case Nil
      with e have "starts_with k (d # t)" by (auto simp: starts_with_iff)
      then show ?thesis by simp
    next
      case (Cons p ps')
      with e have "t = ps' @ k @ ss" by simp
      with Cons.IH have "str_in k t" by blast
      then show ?thesis by simp
    qed
  qed
qed

subsection \<open>Rules that are not active\<close>

lemma loop_body_inactive:
  "\<not> truthy (dget d ''is_active'' (PBool False)) \<Longrightarrow> loop_body m u (PDict d) b = Inr (b, Next)"
  by (simp add: loop_body_def)

lemma for_keywords_skip:
  "\<not> truthy (dget d ''is_active'' (PBool False)) \<Longrightarrow>
   for_keywords lib m u b (xs @ PDict d # ys) w = for_keywords lib m u b (xs @ ys) w"
proof (induction xs arbitrary: b)
  case Nil
  then show ?case by (simp add: loop_body_inactive)
next
  case (Cons x xs)
  then show ?case
    by (simp split: sum.splits prod.splits outcome.splits)
qed

subsection \<open>No exception escapes \<^verbatim>\<open>except Exception\<close>\<close>













subsection \<open>The commands issued\<close>

lemma calls_redis_get: "calls (snd (redis_get k w)) = calls w @ [GET k]"
  by (simp add: redis_get_def Let_def split: option.splits rvalue.splits)

lemma calls_redis_rpush: "calls (snd (redis_rpush k v w)) = calls w @ [RPUSH k v]"
  by (simp add: redis_rpush_def Let_def split: option.splits rvalue.splits)

lemma calls_redis_expire: "calls (snd (redis_expire k n w)) = calls w @ [EXPIRE k n]"
  by (simp add: redis_expire_def Let_def split: option.splits rvalue.splits)

lemma calls_push_message:
  "calls (snd (push_message lib m u uid kw w)) =
     calls w @ [RPUSH (''listener:push:messages:'' @ format_value lib uid)
                  (json_dumps lib (push_data m u kw))]
   \<or> calls (snd (push_message lib m u uid kw w)) =
     calls w @ [RPUSH (''listener:push:messages:'' @ format_value lib uid)
                  (json_dumps lib (push_data m u kw)),
                EXPIRE (''listener:push:messages:'' @ format_value lib uid) 86400]"
proof -
  let ?k = "''listener:push:messages:'' @ format_value lib uid"
  let ?p = "json_dumps lib (push_data m u kw)"
  obtain r1 w1 where r: "redis_rpush ?k ?p w = (r1, w1)" by (cases "redis_rpush ?k ?p w")
  then have c1: "calls w1 = calls w @ [RPUSH ?k ?p]"
    using calls_redis_rpush [of ?k ?p w] by simp
  obtain r2 w2 where e: "redis_expire ?k 86400 w1 = (r2, w2)"
    by (cases "redis_expire ?k 86400 w1")
  then have c2: "calls w2 = calls w1 @ [EXPIRE ?k 86400]"
    using calls_redis_expire [of ?k 86400 w1] by simp
  show ?thesis
    using r e c1 c2 by (cases r1; cases r2) (simp_all add: push_message_def Let_def)
qed

lemma loop_body_Matched:
  "loop_body m u kw b = Inr (b', Matched uid tk) \<Longrightarrow>
   \<exists>d. kw = PDict d \<and> truthy (dget d ''is_active'' (PBool False))
       \<and> uid = dget d ''user_id'' PNone \<and> tk = dget d ''keyword'' (PStr [])"
  by (auto simp: loop_body_def Let_def split: pyval.splits sum.splits bool.splits if_splits)

lemma calls_for_keywords:
  "calls (snd (for_keywords lib m u b ks w)) = calls w
   \<or> (\<exists>d. PDict d \<in> set ks \<and> truthy (dget d ''is_active'' (PBool False)) \<and>
        (calls (snd (for_keywords lib m u b ks w)) =
           calls w @ [RPUSH (''listener:push:messages:'' @ format_value lib (dget d ''user_id'' PNone))
                        (json_dumps lib (push_data m u (dget d ''keyword'' (PStr []))))]
         \<or> calls (snd (for_keywords lib m u b ks w)) =
           calls w @ [RPUSH (''listener:push:messages:'' @ format_value lib (dget d ''user_id'' PNone))
                        (json_dumps lib (push_data m u (dget d ''keyword'' (PStr [])))),
                      EXPIRE (''listener:push:messages:'' @ format_value lib (dget d ''user_id'' PNone))
                        86400]))"
proof (induction ks arbitrary: b)
  case Nil
  then show ?case by simp
next
  case (Cons k ks)
  show ?case
  proof (cases "loop_body m u k b")
    case (Inl e)
    then show ?thesis by simp
  next
    case (Inr r)
    obtain b' out where r: "r = (b', out)" by (cases r)
    show ?thesis
    proof (cases out)
      case Next
      with Inr r have "for_keywords lib m u b (k # ks) w = for_keywords lib m u b' ks w"
        by simp
      with Cons.IH [of b'] show ?thesis by auto
    next
      case (Matched uid tk)
      with Inr r have eq: "for_keywords lib m u b (k # ks) w = push_message lib m u uid tk w"
        by simp
      from Inr r Matched obtain d where d: "k = PDict d"
        "truthy (dget d ''is_active'' (PBool False))"
        "uid = dget d ''user_id'' PNone" "tk = dget d ''keyword'' (PStr [])"
        using loop_body_Matched by blast
      have "PDict d \<in> set (k # ks)" using d by simp
      with calls_push_message [of lib m u uid tk w] eq d show ?thesis
        by (metis (no_types, lifting))
    qed
  qed
qed

subsection \<open>The body of the handler\<close>

lemma handle_body_dropped:
  "from_user m = None
   \<or> (\<exists>u. from_user m = Some u \<and> (is_self u \<or> is_bot u))
   \<or> chat_type (chat m) = PRIVATE
   \<or> (\<not> truthy_str (msg_text m) \<and> \<not> truthy_str (caption m))
   \<Longrightarrow> handle_body lib m w = (Inr (), w)"
  by (auto simp: handle_body_def str_or_def split: option.splits)

lemma handle_body_evaluated:
  assumes "from_user m = Some u" "\<not> is_self u" "\<not> is_bot u" "chat_type (chat m) \<noteq> PRIVATE"
    and "truthy_str (msg_text m) \<or> truthy_str (caption m)"
  shows "handle_body lib m w =
     (case redis_get ''listener:keywords'' (received m u w) of
        (Inl e, w1) \<Rightarrow> (Inl e, w1)
      | (Inr None, w1) \<Rightarrow> (Inr (), w1)
      | (Inr (Some s), w1) \<Rightarrow>
          if s = [] then (Inr (), w1)
          else
            (case json_loads lib s of
               None \<Rightarrow> (Inl JSONDecodeError, w1)
             | Some keywords \<Rightarrow>
                 (case py_iter keywords of
                    Inl e \<Rightarrow> (Inl e, w1)
                  | Inr ks \<Rightarrow> for_keywords lib m u False ks w1)))"
proof -
  have "\<exists>tx. str_or (msg_text m) (caption m) = Some tx \<and> tx \<noteq> []"
    using assms(5) by (cases "msg_text m"; cases "caption m") (auto simp: str_or_def)
  then obtain tx where t: "str_or (msg_text m) (caption m) = Some tx" "tx \<noteq> []"
    by blast
  have p: "type_value (chat_type (chat m)) \<noteq> ''private''"
    using assms(4) by (cases "chat_type (chat m)") simp_all
  have mt: "message_text_of m = tx" using t by (simp add: message_text_of_def)
  show ?thesis
    unfolding handle_body_def received_def mt using assms(1-3) t p by (simp add: Let_def)
qed


lemma calls_handle_message: "calls (snd (handle_message lib m w)) = calls (snd (handle_body lib m w))"
  by (cases "handle_body lib m w"; cases "fst (handle_body lib m w)")
     (auto simp: handle_message_def)

section \<open>The pre-filter\<close>

text \<open>
  Claim C4. A message with no sender, or whose sender is the account itself or a bot,
  or whose chat is private, or whose text and caption are both empty or absent, is
  dropped before any access to the store: the handler returns without an exception
  and leaves the whole state as it was, so it has issued no command (neither the
  \<open>GET\<close> of the rules nor an \<open>RPUSH\<close>) and written no log record, whatever the
  store holds and even when the store is down.
\<close>

theorem prefiltered_message_dropped:
  "from_user m = None
   \<or> (\<exists>u. from_user m = Some u \<and> (is_self u \<or> is_bot u))
   \<or> chat_type (chat m) = PRIVATE
   \<or> (\<not> truthy_str (msg_text m) \<and> \<not> truthy_str (caption m))
   \<Longrightarrow> handle_message lib m w = (None, w)"
  by (auto simp: handle_message_def handle_body_def str_or_def split: option.splits)

theorem prefiltered_message_dropped_witness:
  "chat_type (chat (example_message\<lparr>chat := example_chat\<lparr>chat_type := PRIVATE\<rparr>\<rparr>)) = PRIVATE
   \<and> handle_message example_lib (example_message\<lparr>chat := example_chat\<lparr>chat_type := PRIVATE\<rparr>\<rparr>)
        (broken_world username_rules_json)
      = (None, broken_world username_rules_json)"
  using prefiltered_message_dropped
    [of "example_message\<lparr>chat := example_chat\<lparr>chat_type := PRIVATE\<rparr>\<rparr>" example_lib
        "broken_world username_rules_json"]
  by simp

section \<open>Inactive rules\<close>

text \<open>
  Claim C8. A rule whose \<open>is_active\<close> entry is false (or falsy, or missing) is never
  the rule selected: its iteration ends at the first \<^verbatim>\<open>continue\<close>, before the keyword
  is looked at and before either gate, leaving \<^verbatim>\<open>is_push\<close> as it found it; and the
  loop over a rule list behaves exactly as the loop over the list without that rule.
\<close>

theorem inactive_rule_never_selected:
  "\<not> truthy (dget d ''is_active'' (PBool False)) \<Longrightarrow>
   loop_body m u (PDict d) is_push = Inr (is_push, Next)
   \<and> for_keywords lib m u is_push (before @ PDict d # after) w
       = for_keywords lib m u is_push (before @ after) w"
  by (simp add: loop_body_inactive for_keywords_skip)

theorem inactive_rule_never_selected_witness:
  "\<not> truthy (dget [(''is_active'', PBool False), (''keyword'', PStr ''foo''), (''user_id'', PInt 1)]
        ''is_active'' (PBool False))
   \<and> loop_body example_message example_user
        (PDict [(''is_active'', PBool False), (''keyword'', PStr ''foo''), (''user_id'', PInt 1)])
        False = Inr (False, Next)
   \<and> for_keywords example_lib example_message example_user False
        ([] @ PDict [(''is_active'', PBool False), (''keyword'', PStr ''foo''), (''user_id'', PInt 1)]
          # [])
        (example_world username_rules_json)
     = for_keywords example_lib example_message example_user False ([] @ [])
        (example_world username_rules_json)"
  using inactive_rule_never_selected
    [of "[(''is_active'', PBool False), (''keyword'', PStr ''foo''), (''user_id'', PInt 1)]"
        example_message example_user False example_lib "[]" "[]"
        "example_world username_rules_json"]
  by (simp add: dget_def)

section \<open>No exception reaches the caller\<close>

subsection \<open>The example message on a store that is down\<close>

lemma example_text: "message_text_of example_message = ''foo is here''"
  by (simp add: message_text_of_def example_message_def str_or_def)




section \<open>A rule set that is absent, empty or not JSON\<close>

lemma live_received: "live (received m u w) k = live w k"
  by (simp add: live_def received_def split: option.splits)

lemma redis_get_store:
  "db (snd (redis_get k w)) = db w \<and> deadline (snd (redis_get k w)) = deadline w
   \<and> clock (snd (redis_get k w)) = clock w"
  by (simp add: redis_get_def Let_def split: option.splits rvalue.splits)

text \<open>
  Claim C2. When the key of the rules is absent (or expired), holds the empty string,
  holds a string that \<^verbatim>\<open>json.loads\<close> rejects, or holds the empty JSON list, then for
  every message the handler returns without an exception and pushes nothing: the only
  command it may issue is the \<open>GET\<close> of the rules, and the keys and deadlines of the
  store are unchanged.
\<close>

theorem no_rules_no_notification:
  assumes "live w ''listener:keywords'' = None
      \<or> live w ''listener:keywords'' = Some (RString [])
      \<or> (\<exists>s. live w ''listener:keywords'' = Some (RString s)
              \<and> (json_loads lib s = None \<or> json_loads lib s = Some (PList [])))"
  shows "fst (handle_message lib m w) = None
     \<and> (calls (snd (handle_message lib m w)) = calls w
        \<or> calls (snd (handle_message lib m w)) = calls w @ [GET ''listener:keywords''])
     \<and> db (snd (handle_message lib m w)) = db w
     \<and> deadline (snd (handle_message lib m w)) = deadline w"
proof (cases "from_user m = None
   \<or> (\<exists>u. from_user m = Some u \<and> (is_self u \<or> is_bot u))
   \<or> chat_type (chat m) = PRIVATE
   \<or> (\<not> truthy_str (msg_text m) \<and> \<not> truthy_str (caption m))")
  case True
  then have "handle_body lib m w = (Inr (), w)" by (rule handle_body_dropped)
  then show ?thesis by (simp add: handle_message_def)
next
  case False
  then obtain u where u: "from_user m = Some u" "\<not> is_self u" "\<not> is_bot u"
    "chat_type (chat m) \<noteq> PRIVATE" "truthy_str (msg_text m) \<or> truthy_str (caption m)"
    by auto
  note hb = handle_body_evaluated [OF u, of lib w]
  let ?K = "''listener:keywords''"
  let ?w0 = "received m u w"
  obtain r w1 where g: "redis_get ?K ?w0 = (r, w1)" by (cases "redis_get ?K ?w0")
  have st: "db w1 = db w" "deadline w1 = deadline w" "calls w1 = calls w @ [GET ?K]"
    using redis_get_store [of ?K ?w0] calls_redis_get [of ?K ?w0] g
    by (simp_all add: received_def)
  have lv: "live ?w0 ?K = live w ?K" by (rule live_received)
  have "\<exists>r'. handle_body lib m w = (r', w1) \<and> r' \<noteq> Inl CancelledError"
    using assms hb g lv
    by (auto simp: redis_get_def Let_def split: if_splits)
  then obtain r' where b: "handle_body lib m w = (r', w1)" "r' \<noteq> Inl CancelledError"
    by blast
  have caught: "is_Exception e" if "r' = Inl e" for e
    using that b(2) by (cases e) simp_all
  show ?thesis
    using b(1) st caught by (cases r') (simp_all add: handle_message_def)
qed

theorem no_rules_no_notification_witness:
  "live (example_world ''{oops'') ''listener:keywords'' = Some (RString ''{oops'')
   \<and> json_loads example_lib ''{oops'' = None
   \<and> fst (handle_message example_lib example_message (example_world ''{oops'')) = None
   \<and> calls (snd (handle_message example_lib example_message (example_world ''{oops'')))
       = [GET ''listener:keywords'']"
proof -
  have l: "live (example_world ''{oops'') ''listener:keywords'' = Some (RString ''{oops'')"
    by (simp add: live_def example_world_def)
  have j: "json_loads example_lib ''{oops'' = None"
    by (simp add: example_lib_def example_loads_def username_rules_json_def
        word_limit_rules_json_def pattern_rules_json_def three_rules_json_def)
  have c: "calls (snd (handle_message example_lib example_message (example_world ''{oops'')))
       = [GET ''listener:keywords'']"
    by (simp add: handle_message_def handle_body_def example_message_def example_user_def
      example_chat_def str_or_def redis_get_def example_world_def Let_def live_def j)
  show ?thesis
    using no_rules_no_notification [of "example_world ''{oops''" example_lib example_message]
      l j c by simp
qed

section \<open>Pushing a notification\<close>

lemma push_message_ok:
  assumes k: "key = ''listener:push:messages:'' @ format_value lib uid"
    and p: "p = json_dumps lib (push_data m u kw)"
    and nf: "\<not> faulty w (RPUSH key p)" "\<not> faulty w (EXPIRE key 86400)"
    and q: "live w key = None \<and> old = [] \<or> live w key = Some (RList old)"
  shows "fst (push_message lib m u uid kw w) = Inr ()"
    and "db (snd (push_message lib m u uid kw w)) key = Some (RList (old @ [p]))"
    and "deadline (snd (push_message lib m u uid kw w)) key = Some (clock w + 86400)"
    and "clock (snd (push_message lib m u uid kw w)) = clock w"
    and "faulty (snd (push_message lib m u uid kw w)) = faulty w"
    and "calls (snd (push_message lib m u uid kw w)) = calls w @ [RPUSH key p, EXPIRE key 86400]"
    and "logged (snd (push_message lib m u uid kw w)) = logged w @ [INFO_pushed uid]"
proof -
  define w1 where "w1 = snd (redis_rpush key p w)"
  have r: "redis_rpush key p w = (Inr (), w1)"
    and w1: "db w1 key = Some (RList (old @ [p]))" "clock w1 = clock w" "faulty w1 = faulty w"
      "calls w1 = calls w @ [RPUSH key p]" "logged w1 = logged w"
      "deadline w1 key = None \<or> (\<exists>t. deadline w1 key = Some t \<and> clock w < t)"
    using nf(1) q unfolding w1_def
    by (auto simp: redis_rpush_def Let_def live_def split: option.splits if_splits)
  have l1: "live w1 key = Some (RList (old @ [p]))"
    using w1 by (auto simp: live_def)
  define w2 where "w2 = snd (redis_expire key 86400 w1)"
  have e: "redis_expire key 86400 w1 = (Inr (), w2)"
    and w2: "db w2 key = Some (RList (old @ [p]))" "clock w2 = clock w" "faulty w2 = faulty w"
      "calls w2 = calls w @ [RPUSH key p, EXPIRE key 86400]" "logged w2 = logged w"
      "deadline w2 key = Some (clock w + 86400)"
    using nf(2) l1 w1 unfolding w2_def
    by (simp_all add: redis_expire_def Let_def)
  have pm: "push_message lib m u uid kw w = (Inr (), w2\<lparr>logged := logged w2 @ [INFO_pushed uid]\<rparr>)"
    unfolding push_message_def Let_def k [symmetric] p [symmetric] using r e by simp
  show "fst (push_message lib m u uid kw w) = Inr ()"
    and "db (snd (push_message lib m u uid kw w)) key = Some (RList (old @ [p]))"
    and "deadline (snd (push_message lib m u uid kw w)) key = Some (clock w + 86400)"
    and "clock (snd (push_message lib m u uid kw w)) = clock w"
    and "faulty (snd (push_message lib m u uid kw w)) = faulty w"
    and "calls (snd (push_message lib m u uid kw w)) = calls w @ [RPUSH key p, EXPIRE key 86400]"
    and "logged (snd (push_message lib m u uid kw w)) = logged w @ [INFO_pushed uid]"
    using w2 by (simp_all add: pm)
qed

text \<open>
  Claim C5. On a store that answers, a push issues \<open>RPUSH\<close> of the serialized record
  on the key of the recipient and then \<open>EXPIRE\<close> of that key with 86400 seconds: the
  record is appended at the tail of the recipient's list and the key expires 24 hours
  after the push. A second push to the same recipient less than 24 hours later leaves
  both records in the list, in push order, and the key then expires 24 hours after the
  second push, not after the first.
\<close>

theorem push_appends_and_refreshes_ttl:
  assumes k: "key = ''listener:push:messages:'' @ format_value lib uid"
    and p1: "p1 = json_dumps lib (push_data m1 u1 kw1)"
    and p2: "p2 = json_dumps lib (push_data m2 u2 kw2)"
    and nf: "\<not> faulty w (RPUSH key p1)" "\<not> faulty w (RPUSH key p2)"
      "\<not> faulty w (EXPIRE key 86400)"
    and q: "live w key = None \<and> old = [] \<or> live w key = Some (RList old)"
    and w1: "w1 = snd (push_message lib m1 u1 uid kw1 w)"
    and w2: "w2 = snd (push_message lib m2 u2 uid kw2 (tick d w1))"
    and d: "d < 86400"
  shows "fst (push_message lib m1 u1 uid kw1 w) = Inr ()
     \<and> calls w1 = calls w @ [RPUSH key p1, EXPIRE key 86400]
     \<and> live w1 key = Some (RList (old @ [p1]))
     \<and> deadline w1 key = Some (clock w + 86400)
     \<and> fst (push_message lib m2 u2 uid kw2 (tick d w1)) = Inr ()
     \<and> live w2 key = Some (RList (old @ [p1, p2]))
     \<and> deadline w2 key = Some (clock w + d + 86400)"
proof -
  note a = push_message_ok [OF k p1 nf(1) nf(3) q, folded w1]
  have l1: "live w1 key = Some (RList (old @ [p1]))"
    using a(2,3,4) by (simp add: live_def)
  let ?v = "tick d w1"
  have f: "\<not> faulty ?v (RPUSH key p2)" "\<not> faulty ?v (EXPIRE key 86400)"
    using a(5) nf by (simp_all add: tick_def)
  have lv: "live ?v key = None \<and> old @ [p1] = [] \<or> live ?v key = Some (RList (old @ [p1]))"
    using a(2,3,4) d by (simp add: live_def tick_def)
  note b = push_message_ok [OF k p2 f lv, folded w2]
  have cv: "clock ?v = clock w + d" using a(4) by (simp add: tick_def)
  have l2: "live w2 key = Some (RList (old @ [p1, p2]))"
    using b(2,3,4) by (simp add: live_def)
  show ?thesis
    using a(1) a(6) l1 a(3) b(1) l2 b(3) cv by simp
qed


theorem push_appends_and_refreshes_ttl_witness:
  "live (example_world username_rules_json) (''listener:push:messages:'' @ format_value example_lib (PInt 2)) = None
   \<and> (3600::nat) < 86400
   \<and> live (snd (push_message example_lib example_message example_user (PInt 2) (PStr ''zzz'') (example_world username_rules_json)))
         (''listener:push:messages:'' @ format_value example_lib (PInt 2))
       = Some (RList [(json_dumps example_lib (push_data example_message example_user (PStr ''zzz'')))])
   \<and> live (snd (push_message example_lib example_message example_user (PInt 2) (PStr ''foo'') (tick 3600 (snd (push_message example_lib example_message example_user (PInt 2) (PStr ''zzz'') (example_world username_rules_json))))))
         (''listener:push:messages:'' @ format_value example_lib (PInt 2))
       = Some (RList [(json_dumps example_lib (push_data example_message example_user (PStr ''zzz''))),
                      (json_dumps example_lib (push_data example_message example_user (PStr ''foo'')))])
   \<and> deadline (snd (push_message example_lib example_message example_user (PInt 2) (PStr ''foo'') (tick 3600 (snd (push_message example_lib example_message example_user (PInt 2) (PStr ''zzz'') (example_world username_rules_json))))))
         (''listener:push:messages:'' @ format_value example_lib (PInt 2))
       = Some (3600 + 86400)"
proof -
  have l: "live (example_world username_rules_json) (''listener:push:messages:'' @ format_value example_lib (PInt 2)) = None"
    by (simp add: live_def example_world_def)
  have nf: "\<not> faulty (example_world username_rules_json) c" for c
    by (simp add: example_world_def)
  have c: "clock (example_world username_rules_json) = 0"
    by (simp add: example_world_def)
  show ?thesis
    using push_appends_and_refreshes_ttl
      [of "(''listener:push:messages:'' @ format_value example_lib (PInt 2))" example_lib "PInt 2"
          "(json_dumps example_lib (push_data example_message example_user (PStr ''zzz'')))" example_message example_user "PStr ''zzz''"
          "(json_dumps example_lib (push_data example_message example_user (PStr ''foo'')))" example_message example_user "PStr ''foo''"
          "(example_world username_rules_json)" "[]"
          "(snd (push_message example_lib example_message example_user (PInt 2) (PStr ''zzz'') (example_world username_rules_json)))"
          "(snd (push_message example_lib example_message example_user (PInt 2) (PStr ''foo'') (tick 3600 (snd (push_message example_lib example_message example_user (PInt 2) (PStr ''zzz'') (example_world username_rules_json))))))"
          3600]
      l nf c
    by simp
qed

section \<open>The test of the keyword\<close>

text \<open>
  The example of the two patterns: \<open>bar\<close> does not occur in \<open>a BAR appears\<close> as
  written, and does once both are lower-cased.
\<close>

lemma case_sensitivity_example:
  "keyword_match (PStr ''exact'') (PStr ''bar'') ''a BAR appears'' False = Inr False
   \<and> keyword_match (PStr ''fuzzy'') (PStr ''bar'') ''a BAR appears'' False = Inr True"
  by code_simp

text \<open>
  What the \<^verbatim>\<open>if\<close>/\<^verbatim>\<open>elif\<close> does to the flag, for a keyword that is a string:
  the value after it is the value before it, or the outcome of the test of the rule's
  own pattern (for \<open>exact\<close>, the keyword occurs in the text as written; for
  \<open>fuzzy\<close>, the lower-cased keyword occurs in the lower-cased text). Under any other
  pattern the flag is left as it was. The test can set the flag and never clears it.
\<close>

lemma keyword_match_flag:
  "keyword_match (PStr ''exact'') (PStr k) t is_push
     = Inr (is_push \<or> (\<exists>ps ss. t = ps @ k @ ss))
   \<and> keyword_match (PStr ''fuzzy'') (PStr k) t is_push
     = Inr (is_push \<or> (\<exists>ps ss. lower t = ps @ lower k @ ss))
   \<and> (p \<noteq> PStr ''exact'' \<and> p \<noteq> PStr ''fuzzy'' \<longrightarrow> keyword_match p v t is_push = Inr is_push)"
  by (simp add: keyword_match_def str_in_iff)

section \<open>Defaults of a rule's entries\<close>

lemma str_in_empty: "str_in [] t"
  by (cases t) simp_all

text \<open>
  Claim C10. Nothing checks that a keyword is non-empty. A rule with no \<open>keyword\<close>
  entry, or with the empty string, has the empty keyword; under the pattern \<open>exact\<close>
  (also by default) the empty keyword occurs in every text, so such a rule, when it is
  active and has neither gate, is selected for every message the loop evaluates. A
  rule with no \<open>is_active\<close> entry counts as inactive and is always skipped.
\<close>

theorem empty_keyword_and_missing_is_active:
  assumes "truthy (dget d ''is_active'' (PBool False))"
    and "map_of d ''keyword'' = None \<or> map_of d ''keyword'' = Some (PStr [])"
    and "dget d ''match_pattern'' (PStr ''exact'') = PStr ''exact''"
    and "\<not> truthy (dget d ''has_username'' (PInt 0))"
    and "greater_zero (dget d ''word_limit'' (PInt 0)) = Inr False"
    and "map_of d' ''is_active'' = None"
  shows "dget d ''keyword'' (PStr []) = PStr []
     \<and> keyword_match (PStr ''exact'') (PStr []) (message_text_of m) False = Inr True
     \<and> loop_body m u (PDict d) is_push = Inr (True, Matched (dget d ''user_id'' PNone) (PStr []))
     \<and> dget d' ''is_active'' (PBool False) = PBool False
     \<and> loop_body m u (PDict d') is_push = Inr (is_push, Next)"
proof -
  have k: "dget d ''keyword'' (PStr []) = PStr []"
    using assms(2) by (auto simp: dget_def)
  have a: "dget d' ''is_active'' (PBool False) = PBool False"
    using assms(6) by (simp add: dget_def)
  have km: "keyword_match (PStr ''exact'') (PStr []) t b = Inr True" for t b
    by (simp add: keyword_match_def str_in_empty)
  have "loop_body m u (PDict d) is_push = Inr (True, Matched (dget d ''user_id'' PNone) (PStr []))"
    using assms(1,3,4,5) by (simp add: loop_body_def k km too_short_def)
  moreover have "loop_body m u (PDict d') is_push = Inr (is_push, Next)"
    by (simp add: loop_body_def a)
  ultimately show ?thesis using k a km by simp
qed

theorem empty_keyword_and_missing_is_active_witness:
  "truthy (dget [(''is_active'', PBool True), (''user_id'', PInt 3)] ''is_active'' (PBool False))
   \<and> map_of [(''is_active'', PBool True), (''user_id'', PInt 3)] ''keyword'' = None
   \<and> map_of [(''keyword'', PStr ''foo''), (''user_id'', PInt 3)] ''is_active'' = None
   \<and> loop_body example_message example_user
        (PDict [(''is_active'', PBool True), (''user_id'', PInt 3)]) False
       = Inr (True, Matched (PInt 3) (PStr []))
   \<and> loop_body example_message example_user
        (PDict [(''keyword'', PStr ''foo''), (''user_id'', PInt 3)]) False
       = Inr (False, Next)"
  using empty_keyword_and_missing_is_active
    [of "[(''is_active'', PBool True), (''user_id'', PInt 3)]"
        "[(''keyword'', PStr ''foo''), (''user_id'', PInt 3)]"
        example_message example_user False]
  by (simp add: dget_def)

section \<open>The record pushed\<close>

lemma redis_get_Some:
  "redis_get k w = (Inr (Some s), w1) \<Longrightarrow> live w k = Some (RString s)"
  by (auto simp: redis_get_def Let_def split: if_splits option.splits rvalue.splits)

subsection \<open>The examples, evaluated\<close>

lemma example_words: "length (py_split ''foo is here'') = 3"
  by (simp add: py_split_def is_space_def)

lemma example_format_digits:
  "format_value example_lib (PInt 1) = ''1''" "format_value example_lib (PInt 2) = ''2''"
  by code_simp+

lemma example_loads_rules:
  "json_loads example_lib username_rules_json = Some username_rules"
  "json_loads example_lib word_limit_rules_json = Some word_limit_rules"
  "json_loads example_lib pattern_rules_json = Some pattern_rules"
  "json_loads example_lib three_rules_json = Some three_rules"
  "username_rules_json \<noteq> []" "word_limit_rules_json \<noteq> []"
  "pattern_rules_json \<noteq> []" "three_rules_json \<noteq> []"
  by (simp_all add: example_lib_def example_loads_def username_rules_json_def
      word_limit_rules_json_def pattern_rules_json_def three_rules_json_def)

lemma example_unfiltered:
  "from_user example_message = Some example_user" "\<not> is_self example_user"
  "\<not> is_bot example_user" "chat_type (chat example_message) \<noteq> PRIVATE"
  "truthy_str (msg_text example_message) \<or> truthy_str (caption example_message)"
  by (simp_all add: example_message_def example_user_def example_chat_def)

lemma named_unfiltered:
  "from_user named_message = Some named_user" "\<not> is_self named_user"
  "\<not> is_bot named_user" "chat_type (chat named_message) \<noteq> PRIVATE"
  "truthy_str (msg_text named_message) \<or> truthy_str (caption named_message)"
  by (simp_all add: named_message_def named_user_def example_message_def example_user_def
      example_chat_def)

lemma named_text: "message_text_of named_message = ''foo is here''"
  by (simp add: message_text_of_def named_message_def example_message_def str_or_def)

lemma example_get:
  "redis_get ''listener:keywords'' (received m u (example_world rules))
     = (Inr (Some rules), (received m u (example_world rules))\<lparr>calls := [GET ''listener:keywords'']\<rparr>)"
  by (simp add: redis_get_def received_def example_world_def live_def)

lemma example_push:
  "calls (snd (push_message lib m u uid kw
      ((received m u (example_world rules))\<lparr>calls := [GET ''listener:keywords'']\<rparr>)))
   = [GET ''listener:keywords'',
      RPUSH (''listener:push:messages:'' @ format_value lib uid) (json_dumps lib (push_data m u kw)),
      EXPIRE (''listener:push:messages:'' @ format_value lib uid) 86400]"
  by (simp add: push_message_def redis_rpush_def redis_expire_def live_def received_def
      example_world_def Let_def)

lemma named_calls:
  "calls (snd (handle_message example_lib named_message (example_world username_rules_json)))
   = [GET ''listener:keywords'',
      RPUSH ''listener:push:messages:1''
        (json_dumps example_lib (push_data named_message named_user (PStr ''foo''))),
      EXPIRE ''listener:push:messages:1'' 86400]"
proof -
  have r1: "loop_body named_message named_user
     (PDict [(''is_active'', PBool True), (''keyword'', PStr ''foo''),
             (''has_username'', PInt 1), (''user_id'', PInt 1)]) False
     = Inr (True, Matched (PInt 1) (PStr ''foo''))"
    by (simp add: loop_body_def dget_def keyword_match_def named_text named_user_def
        too_short_def)
  have b: "handle_body example_lib named_message (example_world username_rules_json)
    = push_message example_lib named_message named_user (PInt 1) (PStr ''foo'')
        ((received named_message named_user (example_world username_rules_json))
          \<lparr>calls := [GET ''listener:keywords'']\<rparr>)"
    unfolding handle_body_evaluated [OF named_unfiltered]
    by (simp add: example_get example_loads_rules username_rules_def r1)
  show ?thesis
    unfolding calls_handle_message b example_push
    using example_format_digits by simp
qed

lemma example_payloads_differ:
  "json_dumps example_lib (push_data example_message example_user (PStr ''zzz''))
     \<noteq> json_dumps example_lib (push_data example_message example_user (PStr ''foo''))"
  by (simp add: example_lib_def example_dumps_def push_data_def example_format_def)

text \<open>
  Every record the handler pushes is the serialization of a dict of twelve entries
  built from the message and from some rule of the rule set, on the key of that rule's
  \<open>user_id\<close>, with that rule's keyword as \<open>matched_keyword\<close>. Which rule it is, the
  last section tells.
\<close>

lemma pushed_record_from_some_rule:
  assumes "RPUSH k p \<in> set (calls (snd (handle_message lib m w)))"
    and "RPUSH k p \<notin> set (calls w)"
  shows "\<exists>u s rules ks d.
      from_user m = Some u
    \<and> live w ''listener:keywords'' = Some (RString s)
    \<and> json_loads lib s = Some rules \<and> py_iter rules = Inr ks \<and> PDict d \<in> set ks
    \<and> k = ''listener:push:messages:'' @ format_value lib (dget d ''user_id'' PNone)
    \<and> p = json_dumps lib
          (PDict
            [(''message_id'', PInt (message_id m)),
             (''message_link'', PStr (link m)),
             (''chat_title'', opt_str (title (chat m))),
             (''chat_username'', opt_str (chat_username (chat m))),
             (''chat_type'', PStr (type_value (chat_type (chat m)))),
             (''chat_id'', PInt (chat_id (chat m))),
             (''user_name'', opt_str (username u)),
             (''user_full_name'', opt_str (full_name u)),
             (''user_id'', PInt (user_id u)),
             (''text'', PStr (message_text_of m)),
             (''date'', PFloat (date m)),
             (''matched_keyword'', dget d ''keyword'' (PStr []))])"
proof -
  let ?K = "''listener:keywords''"
  have in_body: "RPUSH k p \<in> set (calls (snd (handle_body lib m w)))"
    using assms(1) by (simp add: calls_handle_message)
  have nd: "\<not> (from_user m = None
   \<or> (\<exists>u. from_user m = Some u \<and> (is_self u \<or> is_bot u))
   \<or> chat_type (chat m) = PRIVATE
   \<or> (\<not> truthy_str (msg_text m) \<and> \<not> truthy_str (caption m)))"
  proof
    assume "from_user m = None
      \<or> (\<exists>u. from_user m = Some u \<and> (is_self u \<or> is_bot u))
      \<or> chat_type (chat m) = PRIVATE
      \<or> (\<not> truthy_str (msg_text m) \<and> \<not> truthy_str (caption m))"
    then have "handle_body lib m w = (Inr (), w)" by (rule handle_body_dropped)
    with in_body assms(2) show False by simp
  qed
  then obtain u where u: "from_user m = Some u" "\<not> is_self u" "\<not> is_bot u"
    "chat_type (chat m) \<noteq> PRIVATE" "truthy_str (msg_text m) \<or> truthy_str (caption m)"
    by auto
  note hb = handle_body_evaluated [OF u, of lib w]
  let ?w0 = "received m u w"
  obtain r w1 where g: "redis_get ?K ?w0 = (r, w1)" by (cases "redis_get ?K ?w0")
  have c1: "calls w1 = calls w @ [GET ?K]"
    using calls_redis_get [of ?K ?w0] g by (simp add: received_def)
  have notin1: "RPUSH k p \<notin> set (calls w1)" using assms(2) c1 by simp
  have "\<exists>s rules ks. r = Inr (Some s) \<and> s \<noteq> [] \<and> json_loads lib s = Some rules
      \<and> py_iter rules = Inr ks \<and> handle_body lib m w = for_keywords lib m u False ks w1"
  proof (rule ccontr)
    assume n: "\<not> ?thesis"
    have "snd (handle_body lib m w) = w1"
      using hb g n
      by (auto split: sum.splits option.splits if_splits)
    with in_body notin1 show False by simp
  qed
  then obtain s rules ks where s: "r = Inr (Some s)" "json_loads lib s = Some rules"
    "py_iter rules = Inr ks" "handle_body lib m w = for_keywords lib m u False ks w1"
    by blast
  have lv: "live w ?K = Some (RString s)"
    using redis_get_Some [of ?K ?w0 s w1] g s(1) by (simp add: live_received)
  from calls_for_keywords [of lib m u False ks w1] in_body notin1 s(4)
  obtain d where d: "PDict d \<in> set ks"
    "k = ''listener:push:messages:'' @ format_value lib (dget d ''user_id'' PNone)"
    "p = json_dumps lib (push_data m u (dget d ''keyword'' (PStr [])))"
    by auto
  show ?thesis
    using u(1) lv s(2,3) d unfolding push_data_def by blast
qed

text \<open>A rule whose keyword occurs and whose gates pass: its owner gets the record.\<close>

lemma pushed_record_example:
  "RPUSH ''listener:push:messages:1''
      (json_dumps example_lib (push_data named_message named_user (PStr ''foo'')))
     \<in> set (calls (snd (handle_message example_lib named_message
                (example_world username_rules_json))))
   \<and> RPUSH ''listener:push:messages:1''
      (json_dumps example_lib (push_data named_message named_user (PStr ''foo'')))
     \<notin> set (calls (example_world username_rules_json))
   \<and> (\<exists>u s rules ks d.
      from_user named_message = Some u
    \<and> live (example_world username_rules_json) ''listener:keywords'' = Some (RString s)
    \<and> json_loads example_lib s = Some rules \<and> py_iter rules = Inr ks \<and> PDict d \<in> set ks
    \<and> ''listener:push:messages:1''
        = ''listener:push:messages:'' @ format_value example_lib (dget d ''user_id'' PNone)
    \<and> json_dumps example_lib (push_data named_message named_user (PStr ''foo''))
      = json_dumps example_lib
          (PDict
            [(''message_id'', PInt (message_id named_message)),
             (''message_link'', PStr (link named_message)),
             (''chat_title'', opt_str (title (chat named_message))),
             (''chat_username'', opt_str (chat_username (chat named_message))),
             (''chat_type'', PStr (type_value (chat_type (chat named_message)))),
             (''chat_id'', PInt (chat_id (chat named_message))),
             (''user_name'', opt_str (username u)),
             (''user_full_name'', opt_str (full_name u)),
             (''user_id'', PInt (user_id u)),
             (''text'', PStr (message_text_of named_message)),
             (''date'', PFloat (date named_message)),
             (''matched_keyword'', dget d ''keyword'' (PStr []))]))"
proof -
  have h1: "RPUSH ''listener:push:messages:1''
      (json_dumps example_lib (push_data named_message named_user (PStr ''foo'')))
     \<in> set (calls (snd (handle_message example_lib named_message
                (example_world username_rules_json))))"
    unfolding named_calls by simp
  have h2: "RPUSH ''listener:push:messages:1''
      (json_dumps example_lib (push_data named_message named_user (PStr ''foo'')))
     \<notin> set (calls (example_world username_rules_json))"
    by (simp add: example_world_def)
  show ?thesis
    using pushed_record_from_some_rule [OF h1 h2] h1 h2 by blast
qed

section \<open>The flag \<^verbatim>\<open>is_push\<close> is carried from one rule to the next\<close>

text \<open>
  Either gate ends the iteration of an active rule with \<^verbatim>\<open>continue\<close>, whatever the
  test of the keyword gave. But the flag the test has set stays set: \<^verbatim>\<open>is_push\<close> is
  assigned \<^verbatim>\<open>False\<close> once, before the loop, and never again. An active rule that
  is reached with the flag set and passes its gates is therefore selected whether or
  not its own keyword occurs in the text.
\<close>

lemma username_gate_skips:
  assumes "truthy (dget d ''is_active'' (PBool False))"
    and "keyword_match (dget d ''match_pattern'' (PStr ''exact'')) (dget d ''keyword'' (PStr []))
           (message_text_of m) is_push = Inr is_push'"
    and "truthy (dget d ''has_username'' (PInt 0))" "\<not> truthy_str (username u)"
  shows "loop_body m u (PDict d) is_push = Inr (is_push', Next)"
  using assms by (simp add: loop_body_def)

lemma word_limit_gate_skips:
  assumes "truthy (dget d ''is_active'' (PBool False))"
    and "keyword_match (dget d ''match_pattern'' (PStr ''exact'')) (dget d ''keyword'' (PStr []))
           (message_text_of m) is_push = Inr is_push'"
    and "too_short (dget d ''word_limit'' (PInt 0)) (message_text_of m) = Inr True"
  shows "loop_body m u (PDict d) is_push = Inr (is_push', Next)"
  using assms by (simp add: loop_body_def)

lemma is_push_never_reset:
  "keyword_match p k t True = Inr b \<Longrightarrow> b"
  by (auto simp: keyword_match_def split: if_splits pyval.splits)

lemma is_push_carried_selects:
  assumes "truthy (dget d ''is_active'' (PBool False))"
    and "keyword_match (dget d ''match_pattern'' (PStr ''exact'')) (dget d ''keyword'' (PStr []))
           (message_text_of m) True = Inr b"
    and "\<not> (truthy (dget d ''has_username'' (PInt 0)) \<and> \<not> truthy_str (username u))"
    and "too_short (dget d ''word_limit'' (PInt 0)) (message_text_of m) = Inr False"
  shows "loop_body m u (PDict d) True
           = Inr (True, Matched (dget d ''user_id'' PNone) (dget d ''keyword'' (PStr [])))"
proof -
  have "b" using assms(2) by (rule is_push_never_reset)
  then show ?thesis using assms by (auto simp: loop_body_def)
qed

text \<open>
  Claim C1 says that the flag is computed from the current rule alone, so that a rule
  whose keyword occurs but whose gate fails cannot make a later rule whose keyword
  does not occur be selected. The code does otherwise. The rules are: for user 1 the
  keyword \<open>foo\<close> with \<open>has_username\<close>, then for user 2 the keyword \<open>zzz\<close>. The
  message \<open>foo is here\<close> comes from a sender with no username. The first rule sets
  the flag and is skipped by its gate; the test of the second rule is false; yet the
  second rule is selected, and a record with \<open>matched_keyword\<close> \<open>zzz\<close> is pushed to
  user 2.
\<close>

theorem username_gate_then_unmatched_rule_pushed:
  "loop_body example_message example_user
      (PDict [(''is_active'', PBool True), (''keyword'', PStr ''foo''),
              (''has_username'', PInt 1), (''user_id'', PInt 1)]) False
     = Inr (True, Next)
   \<and> keyword_match (PStr ''exact'') (PStr ''zzz'') (message_text_of example_message) False
     = Inr False
   \<and> loop_body example_message example_user
      (PDict [(''is_active'', PBool True), (''keyword'', PStr ''zzz''), (''user_id'', PInt 2)]) True
     = Inr (True, Matched (PInt 2) (PStr ''zzz''))
   \<and> calls (snd (handle_message example_lib example_message (example_world username_rules_json)))
     = [GET ''listener:keywords'',
        RPUSH ''listener:push:messages:2''
          (json_dumps example_lib (push_data example_message example_user (PStr ''zzz''))),
        EXPIRE ''listener:push:messages:2'' 86400]"
proof -
  have r1: "loop_body example_message example_user
      (PDict [(''is_active'', PBool True), (''keyword'', PStr ''foo''),
              (''has_username'', PInt 1), (''user_id'', PInt 1)]) False
     = Inr (True, Next)"
    by (simp add: loop_body_def dget_def keyword_match_def example_text example_user_def)
  have k2: "keyword_match (PStr ''exact'') (PStr ''zzz'') (message_text_of example_message) False
     = Inr False"
    by (simp add: keyword_match_def example_text)
  have r2: "loop_body example_message example_user
      (PDict [(''is_active'', PBool True), (''keyword'', PStr ''zzz''), (''user_id'', PInt 2)]) True
     = Inr (True, Matched (PInt 2) (PStr ''zzz''))"
    by (simp add: loop_body_def dget_def keyword_match_def example_text example_user_def
        too_short_def)
  have b: "handle_body example_lib example_message (example_world username_rules_json)
    = push_message example_lib example_message example_user (PInt 2) (PStr ''zzz'')
        ((received example_message example_user (example_world username_rules_json))
          \<lparr>calls := [GET ''listener:keywords'']\<rparr>)"
    unfolding handle_body_evaluated [OF example_unfiltered]
    by (simp add: example_get example_loads_rules username_rules_def r1 r2)
  have c: "calls (snd (handle_message example_lib example_message (example_world username_rules_json)))
     = [GET ''listener:keywords'',
        RPUSH ''listener:push:messages:2''
          (json_dumps example_lib (push_data example_message example_user (PStr ''zzz''))),
        EXPIRE ''listener:push:messages:2'' 86400]"
    unfolding calls_handle_message b example_push
    using example_format_digits by simp
  show ?thesis using r1 k2 r2 c by simp
qed

text \<open>
  Claim C6 says that when the only rule whose keyword occurs is skipped by a gate,
  nothing is pushed. The code does otherwise, by the same carried flag. The rules are:
  for user 1 the keyword \<open>foo\<close> with \<open>word_limit\<close> 5, then for user 2 the keyword
  \<open>zzz\<close>. The message \<open>foo is here\<close> has three words. The first rule, the only one
  whose keyword occurs, is skipped by its gate; the second rule is selected, and a
  record is pushed to user 2.
\<close>

theorem word_limit_gate_then_unmatched_rule_pushed:
  "length (py_split (message_text_of example_message)) = 3
   \<and> loop_body example_message example_user
      (PDict [(''is_active'', PBool True), (''keyword'', PStr ''foo''),
              (''word_limit'', PInt 5), (''user_id'', PInt 1)]) False
     = Inr (True, Next)
   \<and> keyword_match (PStr ''exact'') (PStr ''zzz'') (message_text_of example_message) False
     = Inr False
   \<and> calls (snd (handle_message example_lib example_message
                (example_world word_limit_rules_json)))
     = [GET ''listener:keywords'',
        RPUSH ''listener:push:messages:2''
          (json_dumps example_lib (push_data example_message example_user (PStr ''zzz''))),
        EXPIRE ''listener:push:messages:2'' 86400]"
proof -
  have n: "length (py_split (message_text_of example_message)) = 3"
    by (simp add: example_text example_words)
  have r1: "loop_body example_message example_user
      (PDict [(''is_active'', PBool True), (''keyword'', PStr ''foo''),
              (''word_limit'', PInt 5), (''user_id'', PInt 1)]) False
     = Inr (True, Next)"
    by (simp add: loop_body_def dget_def keyword_match_def example_text example_user_def
        too_short_def example_words)
  have k2: "keyword_match (PStr ''exact'') (PStr ''zzz'') (message_text_of example_message) False
     = Inr False"
    by (simp add: keyword_match_def example_text)
  have r2: "loop_body example_message example_user
      (PDict [(''is_active'', PBool True), (''keyword'', PStr ''zzz''), (''user_id'', PInt 2)]) True
     = Inr (True, Matched (PInt 2) (PStr ''zzz''))"
    by (simp add: loop_body_def dget_def keyword_match_def example_text example_user_def
        too_short_def)
  have b: "handle_body example_lib example_message (example_world word_limit_rules_json)
    = push_message example_lib example_message example_user (PInt 2) (PStr ''zzz'')
        ((received example_message example_user (example_world word_limit_rules_json))
          \<lparr>calls := [GET ''listener:keywords'']\<rparr>)"
    unfolding handle_body_evaluated [OF example_unfiltered]
    by (simp add: example_get example_loads_rules word_limit_rules_def r1 r2)
  have c: "calls (snd (handle_message example_lib example_message
                (example_world word_limit_rules_json)))
     = [GET ''listener:keywords'',
        RPUSH ''listener:push:messages:2''
          (json_dumps example_lib (push_data example_message example_user (PStr ''zzz''))),
        EXPIRE ''listener:push:messages:2'' 86400]"
    unfolding calls_handle_message b example_push
    using example_format_digits by simp
  show ?thesis using n r1 k2 c by simp
qed

text \<open>
  Claim C7 says that the candidate flag of a rule is true exactly when the rule's
  keyword occurs in the text (as written under \<open>exact\<close>, lower-cased under
  \<open>fuzzy\<close>), and that under any other pattern the candidate is false and the rule
  contributes no match. The code does otherwise, by the same carried flag: the flag
  the loop tests after the \<^verbatim>\<open>if\<close>/\<^verbatim>\<open>elif\<close> is true for a keyword that does not
  occur, and under a pattern that is neither, once an earlier rule has set it. The
  rules are: for user 1 the keyword \<open>foo\<close> with \<open>has_username\<close>, then for user 2 the
  keyword \<open>zzz\<close> with the pattern \<open>regex\<close>. The message \<open>foo is here\<close> comes from a
  sender with no username. The rule with the pattern \<open>regex\<close> is selected, and a
  record is pushed to user 2.
\<close>

theorem other_pattern_rule_pushed:
  "loop_body example_message example_user
      (PDict [(''is_active'', PBool True), (''keyword'', PStr ''foo''),
              (''has_username'', PInt 1), (''user_id'', PInt 1)]) False
     = Inr (True, Next)
   \<and> \<not> str_in ''zzz'' (message_text_of example_message)
   \<and> keyword_match (PStr ''exact'') (PStr ''zzz'') (message_text_of example_message) True
     = Inr True
   \<and> keyword_match (PStr ''regex'') (PStr ''zzz'') (message_text_of example_message) True
     = Inr True
   \<and> loop_body example_message example_user
      (PDict [(''is_active'', PBool True), (''match_pattern'', PStr ''regex''),
              (''keyword'', PStr ''zzz''), (''user_id'', PInt 2)]) False
     = Inr (False, Next)
   \<and> loop_body example_message example_user
      (PDict [(''is_active'', PBool True), (''match_pattern'', PStr ''regex''),
              (''keyword'', PStr ''zzz''), (''user_id'', PInt 2)]) True
     = Inr (True, Matched (PInt 2) (PStr ''zzz''))
   \<and> calls (snd (handle_message example_lib example_message (example_world pattern_rules_json)))
     = [GET ''listener:keywords'',
        RPUSH ''listener:push:messages:2''
          (json_dumps example_lib (push_data example_message example_user (PStr ''zzz''))),
        EXPIRE ''listener:push:messages:2'' 86400]"
proof -
  have r1: "loop_body example_message example_user
      (PDict [(''is_active'', PBool True), (''keyword'', PStr ''foo''),
              (''has_username'', PInt 1), (''user_id'', PInt 1)]) False
     = Inr (True, Next)"
    by (simp add: loop_body_def dget_def keyword_match_def example_text example_user_def)
  have n: "\<not> str_in ''zzz'' (message_text_of example_message)"
    by (simp add: example_text)
  have k: "keyword_match (PStr ''exact'') (PStr ''zzz'') (message_text_of example_message) True
     = Inr True"
    "keyword_match (PStr ''regex'') (PStr ''zzz'') (message_text_of example_message) True
     = Inr True"
    by (simp_all add: keyword_match_def)
  have r0: "loop_body example_message example_user
      (PDict [(''is_active'', PBool True), (''match_pattern'', PStr ''regex''),
              (''keyword'', PStr ''zzz''), (''user_id'', PInt 2)]) False
     = Inr (False, Next)"
    by (simp add: loop_body_def dget_def keyword_match_def example_text example_user_def
        too_short_def)
  have r2: "loop_body example_message example_user
      (PDict [(''is_active'', PBool True), (''match_pattern'', PStr ''regex''),
              (''keyword'', PStr ''zzz''), (''user_id'', PInt 2)]) True
     = Inr (True, Matched (PInt 2) (PStr ''zzz''))"
    by (simp add: loop_body_def dget_def keyword_match_def example_text example_user_def
        too_short_def)
  have b: "handle_body example_lib example_message (example_world pattern_rules_json)
    = push_message example_lib example_message example_user (PInt 2) (PStr ''zzz'')
        ((received example_message example_user (example_world pattern_rules_json))
          \<lparr>calls := [GET ''listener:keywords'']\<rparr>)"
    unfolding handle_body_evaluated [OF example_unfiltered]
    by (simp add: example_get example_loads_rules pattern_rules_def r1 r2)
  have c: "calls (snd (handle_message example_lib example_message (example_world pattern_rules_json)))
     = [GET ''listener:keywords'',
        RPUSH ''listener:push:messages:2''
          (json_dumps example_lib (push_data example_message example_user (PStr ''zzz''))),
        EXPIRE ''listener:push:messages:2'' 86400]"
    unfolding calls_handle_message b example_push
    using example_format_digits by simp
  show ?thesis using r1 n k r0 r2 c by simp
qed

text \<open>
  Claim C9 says that the record is built from the message and the matching rule, with
  the matching rule's keyword as \<open>matched_keyword\<close>. The code does otherwise, by the
  same carried flag: the record is built from the rule at which the loop stops, which
  need not be a rule whose keyword occurs. The rules are: for user 1 the keyword
  \<open>foo\<close> with \<open>has_username\<close>, for user 2 the keyword \<open>zzz\<close>, for user 3 the keyword
  \<open>foo\<close> with no gate. The message \<open>foo is here\<close> comes from a sender with no
  username, so the first rule whose keyword occurs and whose gates pass is the third.
  The record pushed has \<open>matched_keyword\<close> \<open>zzz\<close> and goes to user 2; nothing is
  pushed to user 3.
\<close>

theorem record_built_from_unmatched_rule:
  "loop_body example_message example_user
      (PDict [(''is_active'', PBool True), (''keyword'', PStr ''foo''),
              (''has_username'', PInt 1), (''user_id'', PInt 1)]) False
     = Inr (True, Next)
   \<and> keyword_match (PStr ''exact'') (PStr ''zzz'') (message_text_of example_message) False
     = Inr False
   \<and> loop_body example_message example_user
      (PDict [(''is_active'', PBool True), (''keyword'', PStr ''zzz''), (''user_id'', PInt 2)])
      False
     = Inr (False, Next)
   \<and> loop_body example_message example_user
      (PDict [(''is_active'', PBool True), (''keyword'', PStr ''foo''), (''user_id'', PInt 3)])
      False
     = Inr (True, Matched (PInt 3) (PStr ''foo''))
   \<and> calls (snd (handle_message example_lib example_message (example_world three_rules_json)))
     = [GET ''listener:keywords'',
        RPUSH ''listener:push:messages:2''
          (json_dumps example_lib
            (PDict
              [(''message_id'', PInt 1),
               (''message_link'', PStr ''https://t.me/c/5/1''),
               (''chat_title'', PStr ''Room''),
               (''chat_username'', PNone),
               (''chat_type'', PStr ''supergroup''),
               (''chat_id'', PInt 5),
               (''user_name'', PNone),
               (''user_full_name'', PStr ''Ann Lee''),
               (''user_id'', PInt 7),
               (''text'', PStr ''foo is here''),
               (''date'', PFloat 1700000000),
               (''matched_keyword'', PStr ''zzz'')])),
        EXPIRE ''listener:push:messages:2'' 86400]"
proof -
  have r1: "loop_body example_message example_user
      (PDict [(''is_active'', PBool True), (''keyword'', PStr ''foo''),
              (''has_username'', PInt 1), (''user_id'', PInt 1)]) False
     = Inr (True, Next)"
    by (simp add: loop_body_def dget_def keyword_match_def example_text example_user_def)
  have k2: "keyword_match (PStr ''exact'') (PStr ''zzz'') (message_text_of example_message) False
     = Inr False"
    by (simp add: keyword_match_def example_text)
  have r2: "loop_body example_message example_user
      (PDict [(''is_active'', PBool True), (''keyword'', PStr ''zzz''), (''user_id'', PInt 2)]) True
     = Inr (True, Matched (PInt 2) (PStr ''zzz''))"
    by (simp add: loop_body_def dget_def keyword_match_def example_text example_user_def
        too_short_def)
  have r0: "loop_body example_message example_user
      (PDict [(''is_active'', PBool True), (''keyword'', PStr ''zzz''), (''user_id'', PInt 2)])
      False
     = Inr (False, Next)"
    by (simp add: loop_body_def dget_def keyword_match_def example_text example_user_def
        too_short_def)
  have r3: "loop_body example_message example_user
      (PDict [(''is_active'', PBool True), (''keyword'', PStr ''foo''), (''user_id'', PInt 3)])
      False
     = Inr (True, Matched (PInt 3) (PStr ''foo''))"
    by (simp add: loop_body_def dget_def keyword_match_def example_text example_user_def
        too_short_def)
  have b: "handle_body example_lib example_message (example_world three_rules_json)
    = push_message example_lib example_message example_user (PInt 2) (PStr ''zzz'')
        ((received example_message example_user (example_world three_rules_json))
          \<lparr>calls := [GET ''listener:keywords'']\<rparr>)"
    unfolding handle_body_evaluated [OF example_unfiltered]
    by (simp add: example_get example_loads_rules three_rules_def r1 r2)
  have d: "push_data example_message example_user (PStr ''zzz'')
    = PDict
        [(''message_id'', PInt 1),
         (''message_link'', PStr ''https://t.me/c/5/1''),
         (''chat_title'', PStr ''Room''),
         (''chat_username'', PNone),
         (''chat_type'', PStr ''supergroup''),
         (''chat_id'', PInt 5),
         (''user_name'', PNone),
         (''user_full_name'', PStr ''Ann Lee''),
         (''user_id'', PInt 7),
         (''text'', PStr ''foo is here''),
         (''date'', PFloat 1700000000),
         (''matched_keyword'', PStr ''zzz'')]"
    unfolding push_data_def example_text
    by (simp add: example_message_def example_user_def example_chat_def)
  have c: "calls (snd (handle_message example_lib example_message (example_world three_rules_json)))
     = [GET ''listener:keywords'',
        RPUSH ''listener:push:messages:2''
          (json_dumps example_lib (push_data example_message example_user (PStr ''zzz''))),
        EXPIRE ''listener:push:messages:2'' 86400]"
    unfolding calls_handle_message b example_push
    using example_format_digits by simp
  show ?thesis using r1 k2 r0 r3 c unfolding d by simp
qed

end
